theory Spec2Isabelle
  imports Main "HOL-Library.AList"
begin

section \<open>JavaScript values used by the two source files\<close>

text \<open>
  Template literals and string concatenation turn a number into text. A JavaScript
  number is a double; for a safe integer (magnitude at most \<open>2^53 - 1\<close>, the numbers
  \<open>Number.isSafeInteger\<close> accepts) the conversion gives the plain decimal digits, with
  a leading minus sign for a negative number. Beyond that range JavaScript prints the
  shortest digits that read back as the same double, and exponent form from \<open>10^21\<close>;
  \<open>ToString\<close> below is the conversion on safe integers only, and every statement about
  it carries \<open>isSafeInteger\<close>.
\<close>

definition isSafeInteger :: "int \<Rightarrow> bool" where
  "isSafeInteger i = (\<bar>i\<bar> \<le> 9007199254740991)"

definition digit_char :: "nat \<Rightarrow> char" where
  "digit_char d = ''0123456789'' ! (d mod 10)"

function string_of_nat :: "nat \<Rightarrow> string" where
  "string_of_nat n =
     (if n < 10 then [digit_char n]
      else string_of_nat (n div 10) @ [digit_char (n mod 10)])"
  by pat_completeness auto
termination
  by (relation "measure id") auto

declare string_of_nat.simps [simp del]

definition ToString :: "int \<Rightarrow> string" where
  "ToString i = (if i < 0 then CHR ''-'' # string_of_nat (nat (- i)) else string_of_nat (nat i))"

text \<open>
  Reading decimal text, the other way round: the value of a digit, the value of a string
  of digits, and the canonical numerals (digits only, not empty, no leading zero but for
  \<open>0\<close> itself). \<open>parse_decimal\<close> reads a canonical numeral, or a minus sign followed by
  a canonical numeral other than \<open>0\<close>, and nothing else.
\<close>

definition is_digit :: "char \<Rightarrow> bool" where
  "is_digit c = (c \<in> set ''0123456789'')"

definition digit_value :: "char \<Rightarrow> nat" where
  "digit_value c = length (takeWhile (\<lambda>d. d \<noteq> c) ''0123456789'')"

definition decimal_value :: "string \<Rightarrow> nat" where
  "decimal_value ds = foldl (\<lambda>a c. 10 * a + digit_value c) 0 ds"

definition canonical_decimal :: "string \<Rightarrow> bool" where
  "canonical_decimal ds =
     (ds \<noteq> [] \<and> list_all is_digit ds \<and> (ds = ''0'' \<or> hd ds \<in> set ''123456789''))"

definition parse_decimal :: "string \<Rightarrow> int option" where
  "parse_decimal s =
     (case s of
        [] \<Rightarrow> None
      | c # ds \<Rightarrow>
          if c = CHR ''-'' then
            (if canonical_decimal ds \<and> 0 < decimal_value ds
             then Some (- int (decimal_value ds)) else None)
          else if canonical_decimal s then Some (int (decimal_value s))
          else None)"

text \<open>
  An object literal \<open>{k1: v1, k2: v2, ...}\<close> is evaluated left to right; a key that
  occurs again (possible here only through the computed key) overwrites the value stored
  under it and keeps the place of the first occurrence. The own properties of an object
  are ordered as JavaScript enumerates them: the keys that are array indices (canonical
  numerals below \<open>2^32 - 1\<close>) first, in ascending numeric order, then the other keys in
  the order of their creation. Properties are read with \<open>map_of\<close>.
\<close>

datatype css_value = Str string | Obj "(string \<times> css_value) list"

definition is_array_index :: "string \<Rightarrow> bool" where
  "is_array_index k = (canonical_decimal k \<and> decimal_value k < 4294967295)"

definition own_property_order :: "(string \<times> css_value) list \<Rightarrow> (string \<times> css_value) list" where
  "own_property_order obj =
     sort_key (\<lambda>(k, v). decimal_value k) (filter (\<lambda>(k, v). is_array_index k) obj)
       @ filter (\<lambda>(k, v). \<not> is_array_index k) obj"

definition object_literal :: "(string \<times> css_value) list \<Rightarrow> (string \<times> css_value) list" where
  "object_literal props =
     own_property_order (foldl (\<lambda>obj (k, v). AList.update k v obj) [] props)"

section \<open>Style preset table (\<open>src/unnamed/part_000\<close>)\<close>

text \<open>
  The theme is used only through \<open>theme.fn.smallerThan\<close>, which maps a breakpoint name
  to the text of a media query.
\<close>

record MantineTheme =
  smallerThan :: "string \<Rightarrow> string"

text \<open>The arrow function handed to \<open>createStyles\<close>.\<close>

definition tableStyles :: "MantineTheme \<Rightarrow> (string \<times> css_value) list" where
  "tableStyles theme = object_literal
     [(''primary'', Obj (object_literal
         [(''display'', Str ''inline-block''),
          (smallerThan theme ''sm'', Obj (object_literal [(''minWidth'', Str ''12rem'')]))])),
      (''noWrap'', Obj (object_literal [(''whiteSpace'', Str ''nowrap'')])),
      (''select'', Obj (object_literal
         [(''display'', Str ''inline-block''),
          (smallerThan theme ''sm'', Obj (object_literal [(''minWidth'', Str ''10rem'')]))])),
      (''width10em'', Obj (object_literal [(''width'', Str ''10em'')])),
      (''width9em'', Obj (object_literal [(''width'', Str ''9em'')])),
      (''width8em'', Obj (object_literal [(''width'', Str ''8em'')])),
      (''width7em'', Obj (object_literal [(''width'', Str ''7em'')])),
      (''width6em'', Obj (object_literal [(''width'', Str ''6em'')])),
      (''width5em'', Obj (object_literal [(''width'', Str ''5em'')])),
      (''width4em'', Obj (object_literal [(''width'', Str ''4em'')])),
      (''width3em'', Obj (object_literal [(''width'', Str ''3em'')])),
      (''width2em'', Obj (object_literal [(''width'', Str ''2em'')])),
      (''width1em'', Obj (object_literal [(''width'', Str ''1em'')]))]"

text \<open>
  \<open>createStyles\<close> belongs to the UI library: the hook it returns reads the theme from
  the rendering context and yields \<open>classes\<close>, one generated class per key of the style
  object. A class is represented by the rule set it stands for, so \<open>classes.k\<close> is the
  lookup of \<open>k\<close> in the style object and is \<open>None\<close> (undefined) for an unknown name.
\<close>

definition useTableStyles :: "MantineTheme \<Rightarrow> string \<Rightarrow> css_value option" where
  "useTableStyles theme = map_of (tableStyles theme)"

section \<open>Data supplied by the collaborators of the page\<close>

text \<open>
  Modelled from the spec: the declarations of the Episode-Wanted record and of its
  missing-subtitle entries are not part of the two source files. An entry has a
  two-letter code, a display name, a hearing-impaired flag and a forced flag; a record
  has the series and episode identifiers, the series title, the episode number and title,
  the file path, an optional scene-release name and the ordered list of missing entries.
\<close>

record Subtitle =
  code2 :: string
  name :: string
  hi :: bool
  forced :: bool

record Wanted_Episode =
  sonarrSeriesId :: int
  sonarrEpisodeId :: int
  seriesTitle :: string
  episode_number :: string
  episodeTitle :: string
  path :: string
  sceneName :: "string option"
  missing_subtitles :: "Subtitle list"

text \<open>The argument object built in the click handler, and the one built in \<open>searchAll\<close>.\<close>

record SubtitleForm =
  language :: string
  hi :: bool
  forced :: bool

record EpisodeSubtitleParam =
  seriesId :: int
  episodeId :: int
  form :: SubtitleForm

record SeriesActionForm =
  action :: string

text \<open>
  Modelled from the spec: the enumeration \<open>TaskGroup\<close> of the task module is declared
  outside the source files; the page refers to its member \<open>SearchSubtitle\<close> only, every
  other member is an \<open>OtherTaskGroup\<close>.
\<close>

datatype TaskGroup = SearchSubtitle | OtherTaskGroup string

text \<open>
  A mutation as the data hooks return it: the \<open>isLoading\<close> flag and the function
  \<open>mutateAsync\<close>, which is a value of an arbitrary type \<open>'f\<close> because the page never
  looks inside it: it hands it to the task facade or calls it.
\<close>

record 'f Mutation =
  isLoading :: bool
  mutateAsync :: 'f

text \<open>
  Everything the page does to the outside goes through two calls: \<open>task.create\<close> and
  a call of \<open>mutateAsync\<close> of the series-action mutation. The outside world is the
  sequence of these calls, oldest first.
\<close>

datatype 'f effect =
    TaskCreate (task_name: string) (task_group: TaskGroup) (task_callable: 'f)
      (task_parameters: EpisodeSubtitleParam)
  | MutateAsync 'f SeriesActionForm

type_synonym 'f handler = "'f effect list \<Rightarrow> 'f effect list"

text \<open>
  Modelled from the spec: the task-queue facade \<open>task.create(name, group, asyncFn, args)\<close>
  registers one named, grouped background task; what the task subsystem then does with
  it is outside the page.
\<close>

definition task_create ::
    "string \<Rightarrow> TaskGroup \<Rightarrow> 'f \<Rightarrow> EpisodeSubtitleParam \<Rightarrow> 'f handler" where
  "task_create nm grp callable parameters w = w @ [TaskCreate nm grp callable parameters]"

text \<open>Calling the function \<open>fn\<close> of the series-action mutation with \<open>arg\<close>.\<close>

definition invoke :: "'f \<Rightarrow> SeriesActionForm \<Rightarrow> 'f handler" where
  "invoke fn arg w = w @ [MutateAsync fn arg]"

section \<open>Elements\<close>

text \<open>
  The value found under an accessor key of a record, as the table component hands it to
  a cell: a string, a number, the list of missing entries, or undefined.
\<close>

datatype cell_value =
    VString string
  | VNumber int
  | VSubtitles "Subtitle list"
  | VUndefined

record Row =
  original :: Wanted_Episode

record CellProps =
  row :: Row
  "value" :: cell_value

datatype component = Link

datatype icon = faFileLines | faSearch

text \<open>
  A JSX expression builds the description of an element: the component and its props.
  One constructor per component the page uses, the props in the order given below;
  an optional prop the page leaves out, or sets to undefined, is \<open>None\<close>.
  \<^item> \<open>Anchor className component to children\<close>
  \<^item> \<open>Text className children\<close>
  \<^item> \<open>TextPopover text children\<close>
  \<^item> \<open>FontAwesomeIcon size icon\<close>
  \<^item> \<open>Group spacing children\<close>
  \<^item> \<open>Badge color leftSection key style onClick children\<close>
  \<^item> \<open>LanguageText value\<close>, the element \<open>Language.Text\<close>
  \<^item> \<open>Value v\<close>, the child \<open>{value}\<close>
\<close>

datatype 'f element =
    Anchor "css_value option" component string "'f element list"
  | Text "css_value option" "'f element list"
  | TextPopover "string option" "'f element list"
  | FontAwesomeIcon "string option" icon
  | Group string "'f element list"
  | Badge "string option" "'f element" string "(string \<times> string) list"
      "'f handler option" "'f element list"
  | LanguageText Subtitle
  | Value cell_value

datatype error = TypeError

text \<open>
  What a cell reads from its surroundings: the theme (through \<open>useTableStyles\<close>), the
  download mutation (through \<open>useEpisodeSubtitleModification\<close>) and the imported
  utility \<open>BuildKey\<close>, whose code is not among the source files and is a parameter.
\<close>

record 'f Env =
  theme :: MantineTheme
  download :: "'f Mutation"
  BuildKey :: "nat \<Rightarrow> string \<Rightarrow> string"

section \<open>The page (\<open>src/frontend/src/pages/Wanted/Series/index.tsx\<close>)\<close>

text \<open>The \<open>Cell\<close> functions of the columns, in the order of the source.\<close>

definition Name_Cell :: "'f Env \<Rightarrow> CellProps \<Rightarrow> error + 'f element" where
  "Name_Cell env props =
     (let target = ''/series/'' @ ToString (sonarrSeriesId (original (row props)));
          classes = useTableStyles (theme env)
      in Inr (Anchor (classes ''primary'') Link target [Value (value props)]))"

definition EpisodeTitle_Cell :: "'f Env \<Rightarrow> CellProps \<Rightarrow> error + 'f element" where
  "EpisodeTitle_Cell env props =
     (let classes = useTableStyles (theme env)
      in Inr (Text (classes ''noWrap'') [Value (value props)]))"

definition Path_Cell :: "'f Env \<Rightarrow> CellProps \<Rightarrow> error + 'f element" where
  "Path_Cell env props =
     (let classes = useTableStyles (theme env)
      in Inr (Text (classes ''width7em'') [Value (value props)]))"

definition Release_Cell :: "'f Env \<Rightarrow> CellProps \<Rightarrow> error + 'f element" where
  "Release_Cell env props =
     Inr (TextPopover (sceneName (original (row props)))
            [FontAwesomeIcon (Some ''2x'') faFileLines])"

text \<open>
  \<open>value.map((item, idx) => ...)\<close> is the map over the entries paired with their
  indices from 0; on a value that is not a list the call of \<open>map\<close> is a type error.
\<close>

definition Missing_Cell :: "'f Env \<Rightarrow> CellProps \<Rightarrow> error + 'f element" where
  "Missing_Cell env props =
     (let wanted = original (row props);
          seriesId' = sonarrSeriesId wanted;
          episodeId' = sonarrEpisodeId wanted;
          download' = download env
      in case value props of
           VSubtitles items \<Rightarrow>
             Inr (Group ''sm''
               (map (\<lambda>(idx, item).
                    Badge (if isLoading download' then Some ''gray'' else None)
                      (FontAwesomeIcon None faSearch)
                      (BuildKey env idx (code2 item))
                      [(''cursor'', ''pointer'')]
                      (Some (task_create (name item) SearchSubtitle (mutateAsync download')
                         \<lparr>seriesId = seriesId',
                          episodeId = episodeId',
                          form = \<lparr>language = code2 item,
                                  hi = Subtitle.hi item,
                                  forced = Subtitle.forced item\<rparr>\<rparr>))
                      [LanguageText item])
                  (List.enumerate 0 items)))
         | _ \<Rightarrow> Inl TypeError)"

record 'f Column =
  Header :: "string option"
  accessor :: string
  className :: "string option"
  Cell :: "('f Env \<Rightarrow> CellProps \<Rightarrow> error + 'f element) option"

text \<open>The arrow function handed to \<open>useMemo\<close>.\<close>

definition columns_factory :: "unit \<Rightarrow> 'f Column list" where
  "columns_factory u =
     [\<lparr>Header = Some ''Name'', accessor = ''seriesTitle'', className = None,
       Cell = Some Name_Cell\<rparr>,
      \<lparr>Header = Some ''Episode'', accessor = ''episode_number'', className = None,
       Cell = None\<rparr>,
      \<lparr>Header = None, accessor = ''episodeTitle'', className = None,
       Cell = Some EpisodeTitle_Cell\<rparr>,
      \<lparr>Header = Some ''Path'', accessor = ''path'', className = None,
       Cell = Some Path_Cell\<rparr>,
      \<lparr>Header = Some ''Release'', accessor = ''sceneName'',
       className = Some ''width6em text-center'', Cell = Some Release_Cell\<rparr>,
      \<lparr>Header = Some ''Missing'', accessor = ''missing_subtitles'', className = None,
       Cell = Some Missing_Cell\<rparr>]"

text \<open>
  Modelled from the spec: \<open>useMemo\<close> belongs to the UI library. The memoised value is
  recomputed only when the dependencies change: the cell of the hook keeps the last
  value with the dependencies it was computed for, and the factory is called on the
  first render (an empty cell) or when the dependencies differ from the kept ones.
\<close>

definition useMemo ::
    "(unit \<Rightarrow> 'a) \<Rightarrow> 'd list \<Rightarrow> ('a \<times> 'd list) option \<Rightarrow> 'a \<times> ('a \<times> 'd list) option" where
  "useMemo factory deps cell =
     (case cell of
        None \<Rightarrow> (let v = factory () in (v, Some (v, deps)))
      | Some (v, prev) \<Rightarrow>
          if prev = deps then (v, cell)
          else (let v' = factory () in (v', Some (v', deps))))"

text \<open>What the page component reads from its two hooks.\<close>

record ('f, 'q) PageHooks =
  useSeriesAction :: "'f Mutation"
  useEpisodeWantedPagination :: 'q

datatype ('f, 'q) view =
  WantedView (view_name: string) (view_columns: "'f Column list") (view_query: 'q)
    (view_searchAll: "'f handler")

text \<open>
  One render of the component: the cell of its \<open>useMemo\<close> hook goes in and comes out.
  The dependency list of the source is empty.
\<close>

definition WantedSeriesView ::
    "('f, 'q) PageHooks \<Rightarrow> ('f Column list \<times> unit list) option
       \<Rightarrow> ('f, 'q) view \<times> ('f Column list \<times> unit list) option" where
  "WantedSeriesView hooks cell =
     (let (columns, cell') = useMemo columns_factory [] cell;
          mutateAsync' = mutateAsync (useSeriesAction hooks);
          query = useEpisodeWantedPagination hooks
      in (WantedView ''Series'' columns query
            (\<lambda>w. invoke mutateAsync' \<lparr>action = ''search-wanted''\<rparr> w),
          cell'))"


section \<open>The hosts of the cells\<close>

text \<open>
  Modelled from the spec: the table component is not among the source files. It hands
  each cell the row and the value found in the record under the column's accessor key
  (undefined for a key the record does not have, or for an absent optional field).
\<close>

definition accessor_value :: "string \<Rightarrow> Wanted_Episode \<Rightarrow> cell_value" where
  "accessor_value k e =
     (if k = ''sonarrSeriesId'' then VNumber (sonarrSeriesId e)
      else if k = ''sonarrEpisodeId'' then VNumber (sonarrEpisodeId e)
      else if k = ''seriesTitle'' then VString (seriesTitle e)
      else if k = ''episode_number'' then VString (episode_number e)
      else if k = ''episodeTitle'' then VString (episodeTitle e)
      else if k = ''path'' then VString (path e)
      else if k = ''sceneName'' then (case sceneName e of None \<Rightarrow> VUndefined | Some s \<Rightarrow> VString s)
      else if k = ''missing_subtitles'' then VSubtitles (missing_subtitles e)
      else VUndefined)"

definition Wanted_Episode_keys :: "string list" where
  "Wanted_Episode_keys =
     [''sonarrSeriesId'', ''sonarrEpisodeId'', ''seriesTitle'', ''episode_number'',
      ''episodeTitle'', ''path'', ''sceneName'', ''missing_subtitles'']"

definition cell_props :: "string \<Rightarrow> Wanted_Episode \<Rightarrow> CellProps" where
  "cell_props k e = \<lparr>row = \<lparr>original = e\<rparr>, value = accessor_value k e\<rparr>"

text \<open>The badges of a rendered Missing cell: the children of its group.\<close>

fun badges :: "error + 'f element \<Rightarrow> 'f element list" where
  "badges (Inr (Group spacing cs)) = cs"
| "badges _ = []"

definition missing_badges :: "'f Env \<Rightarrow> Wanted_Episode \<Rightarrow> 'f element list" where
  "missing_badges env e = badges (Missing_Cell env (cell_props ''missing_subtitles'' e))"

fun is_Badge :: "'f element \<Rightarrow> bool" where
  "is_Badge (Badge color leftSection k style onClick cs) = True"
| "is_Badge _ = False"

fun badge_color :: "'f element \<Rightarrow> string option" where
  "badge_color (Badge color leftSection k style onClick cs) = color"
| "badge_color _ = None"

fun badge_onClick :: "'f element \<Rightarrow> 'f handler option" where
  "badge_onClick (Badge color leftSection k style onClick cs) = onClick"
| "badge_onClick _ = None"

fun badge_children :: "'f element \<Rightarrow> 'f element list" where
  "badge_children (Badge color leftSection k style onClick cs) = cs"
| "badge_children _ = []"

text \<open>A click on an element runs its click handler if it has one, and nothing otherwise.\<close>

definition click :: "'f element \<Rightarrow> 'f handler" where
  "click b w = (case badge_onClick b of None \<Rightarrow> w | Some h \<Rightarrow> h w)"

text \<open>
  Modelled from the spec: the component \<open>Language.Text\<close> is not among the source files.
  By the spec a badge is labeled with the display name of its language.
\<close>

definition LanguageText_label :: "Subtitle \<Rightarrow> string" where
  "LanguageText_label item = name item"

fun label :: "'f element \<Rightarrow> string option" where
  "label (LanguageText item) = Some (LanguageText_label item)"
| "label _ = None"

section \<open>Concrete inputs\<close>

text \<open>
  A record of series 1, episode 42, with no scene name and two missing languages, and
  the surroundings of a cell with the download mutation idle or in flight.
\<close>

definition example_episode :: Wanted_Episode where
  "example_episode =
     \<lparr>sonarrSeriesId = 1, sonarrEpisodeId = 42, seriesTitle = ''Series'',
      episode_number = ''1x05'', episodeTitle = ''Episode'', path = ''/tv/series/e05.mkv'',
      sceneName = None,
      missing_subtitles =
        [\<lparr>code2 = ''en'', name = ''English'', hi = False, forced = False\<rparr>,
         \<lparr>code2 = ''fr'', name = ''French'', hi = True, forced = False\<rparr>]\<rparr>"

definition example_theme :: "string \<Rightarrow> MantineTheme" where
  "example_theme px = \<lparr>smallerThan = (\<lambda>b. ''@media (max-width: '' @ px @ ''px)'')\<rparr>"

definition example_env :: "bool \<Rightarrow> string Env" where
  "example_env loading =
     \<lparr>theme = example_theme ''767'',
      download = \<lparr>isLoading = loading, mutateAsync = ''download.mutateAsync''\<rparr>,
      BuildKey = (\<lambda>idx c. string_of_nat idx @ ''-'' @ c)\<rparr>"

text \<open>A second theme: the same media query for \<open>sm\<close>, another one elsewhere.\<close>

definition example_theme_alt :: MantineTheme where
  "example_theme_alt =
     \<lparr>smallerThan = (\<lambda>b. if b = ''sm'' then ''@media (max-width: 767px)'' else ''@media print'')\<rparr>"

section \<open>Lemmas on decimal text\<close>

lemma digit_char_is_digit: "is_digit (digit_char d)"
proof -
  have "d mod 10 < 10" by simp
  then consider "d mod 10 = 0" | "d mod 10 = 1" | "d mod 10 = 2" | "d mod 10 = 3"
    | "d mod 10 = 4" | "d mod 10 = 5" | "d mod 10 = 6" | "d mod 10 = 7" | "d mod 10 = 8"
    | "d mod 10 = 9"
    by atomize_elim arith
  then show ?thesis
    by cases (simp_all add: is_digit_def digit_char_def)
qed

lemma digit_value_digit_char: "digit_value (digit_char d) = d mod 10"
proof -
  have "d mod 10 < 10" by simp
  then consider "d mod 10 = 0" | "d mod 10 = 1" | "d mod 10 = 2" | "d mod 10 = 3"
    | "d mod 10 = 4" | "d mod 10 = 5" | "d mod 10 = 6" | "d mod 10 = 7" | "d mod 10 = 8"
    | "d mod 10 = 9"
    by atomize_elim arith
  then show ?thesis
    by cases (simp_all add: digit_value_def digit_char_def)
qed

lemma digit_char_zero: "d < 10 \<Longrightarrow> (digit_char d = CHR ''0'') = (d = 0)"
proof -
  assume "d < 10"
  then consider "d = 0" | "d = 1" | "d = 2" | "d = 3" | "d = 4" | "d = 5" | "d = 6"
    | "d = 7" | "d = 8" | "d = 9"
    by atomize_elim arith
  then show ?thesis
    by cases (simp_all add: digit_char_def)
qed

lemma digit_char_nonzero: "d < 10 \<Longrightarrow> d \<noteq> 0 \<Longrightarrow> digit_char d \<in> set ''123456789''"
proof -
  assume "d < 10" and "d \<noteq> 0"
  then consider "d = 1" | "d = 2" | "d = 3" | "d = 4" | "d = 5" | "d = 6"
    | "d = 7" | "d = 8" | "d = 9"
    by atomize_elim arith
  then show ?thesis
    by cases (simp_all add: digit_char_def)
qed

lemma decimal_value_snoc: "decimal_value (ds @ [c]) = 10 * decimal_value ds + digit_value c"
  by (simp add: decimal_value_def)

lemma string_of_nat_not_Nil: "string_of_nat n \<noteq> []"
  by (induction n rule: string_of_nat.induct) (subst string_of_nat.simps, simp)

lemma string_of_nat_digits: "list_all is_digit (string_of_nat n)"
proof (induction n rule: string_of_nat.induct)
  case (1 n)
  show ?case
  proof (cases "n < 10")
    case True
    then show ?thesis
      by (subst string_of_nat.simps) (simp add: digit_char_is_digit)
  next
    case False
    with "1" show ?thesis
      by (subst string_of_nat.simps) (simp add: digit_char_is_digit)
  qed
qed

lemma decimal_value_string_of_nat: "decimal_value (string_of_nat n) = n"
proof (induction n rule: string_of_nat.induct)
  case (1 n)
  show ?case
  proof (cases "n < 10")
    case True
    then show ?thesis
      by (subst string_of_nat.simps) (simp add: decimal_value_def digit_value_digit_char)
  next
    case False
    with "1" show ?thesis
      by (subst string_of_nat.simps) (simp add: decimal_value_snoc digit_value_digit_char)
  qed
qed

lemma string_of_nat_hd:
  "string_of_nat n = ''0'' \<or> hd (string_of_nat n) \<in> set ''123456789''"
proof (induction n rule: string_of_nat.induct)
  case (1 n)
  show ?case
  proof (cases "n < 10")
    case True
    show ?thesis
    proof (cases "n = 0")
      case True
      then show ?thesis
        by (subst string_of_nat.simps) (simp add: digit_char_def)
    next
      case False
      with \<open>n < 10\<close> have "digit_char n \<in> set ''123456789''"
        by (rule_tac digit_char_nonzero)
      with \<open>n < 10\<close> show ?thesis
        by (subst (1 2) string_of_nat.simps) simp
    qed
  next
    case False
    then have pos: "n div 10 \<noteq> 0" by simp
    have "string_of_nat (n div 10) \<noteq> ''0''"
    proof
      assume "string_of_nat (n div 10) = ''0''"
      then have "decimal_value (string_of_nat (n div 10)) = decimal_value ''0''" by simp
      moreover have "decimal_value ''0'' = 0"
        by (simp add: decimal_value_def digit_value_def)
      ultimately have "n div 10 = 0"
        by (simp only: decimal_value_string_of_nat)
      with pos show False by simp
    qed
    with "1" False have "hd (string_of_nat (n div 10)) \<in> set ''123456789''"
      by blast
    with False show ?thesis
      by (subst (1 2) string_of_nat.simps) (simp add: string_of_nat_not_Nil)
  qed
qed

lemma string_of_nat_canonical: "canonical_decimal (string_of_nat n)"
  using string_of_nat_hd [of n]
  by (simp add: canonical_decimal_def string_of_nat_not_Nil string_of_nat_digits)

lemma string_of_nat_no_minus: "hd (string_of_nat n) \<noteq> CHR ''-''"
proof -
  have "list_all is_digit (string_of_nat n)" by (rule string_of_nat_digits)
  then have "is_digit (hd (string_of_nat n))"
    using string_of_nat_not_Nil [of n] by (cases "string_of_nat n") simp_all
  then show ?thesis
    by (auto simp: is_digit_def)
qed

lemma parse_decimal_ToString: "parse_decimal (ToString i) = Some i"
proof (cases "i < 0")
  case True
  then have "0 < nat (- i)" by simp
  with True show ?thesis
    by (simp add: parse_decimal_def ToString_def string_of_nat_canonical
        decimal_value_string_of_nat)
next
  case False
  obtain c ds where s: "string_of_nat (nat i) = c # ds"
    using string_of_nat_not_Nil [of "nat i"] by (cases "string_of_nat (nat i)") simp_all
  with string_of_nat_no_minus [of "nat i"] have c: "c \<noteq> CHR ''-''" by simp
  have "canonical_decimal (c # ds)" "decimal_value (c # ds) = nat i"
    using string_of_nat_canonical [of "nat i"] decimal_value_string_of_nat [of "nat i"]
    by (simp_all add: s)
  with False c show ?thesis
    by (simp add: parse_decimal_def ToString_def s)
qed

lemma digit_char_digit_value: "is_digit c \<Longrightarrow> digit_char (digit_value c) = c"
  by (auto simp: is_digit_def digit_char_def digit_value_def)

lemma digit_value_less: "is_digit c \<Longrightarrow> digit_value c < 10"
  by (auto simp: is_digit_def digit_value_def)

lemma string_of_nat_decimal_value:
  "canonical_decimal ds \<Longrightarrow> string_of_nat (decimal_value ds) = ds"
proof (induction ds rule: rev_induct)
  case Nil
  then show ?case by (simp add: canonical_decimal_def)
next
  case (snoc c xs)
  from snoc.prems have c: "is_digit c" and xs: "list_all is_digit xs"
    by (simp_all add: canonical_decimal_def)
  show ?case
  proof (cases "xs = []")
    case True
    with c show ?thesis
      by (subst string_of_nat.simps)
        (simp add: decimal_value_def digit_value_less digit_char_digit_value)
  next
    case False
    with snoc.prems have hd: "hd xs \<in> set ''123456789''"
      by (cases xs) (simp_all add: canonical_decimal_def)
    with False xs have can: "canonical_decimal xs"
      by (simp add: canonical_decimal_def)
    then have ih: "string_of_nat (decimal_value xs) = xs"
      by (rule snoc.IH)
    have "decimal_value xs \<noteq> 0"
    proof
      assume "decimal_value xs = 0"
      with ih have "xs = string_of_nat 0" by simp
      then have "xs = ''0''"
        by (subst (asm) string_of_nat.simps) (simp add: digit_char_def)
      with hd show False by simp
    qed
    then have big: "\<not> 10 * decimal_value xs + digit_value c < 10"
      by simp
    have "(10 * decimal_value xs + digit_value c) div 10 = decimal_value xs"
      and "(10 * decimal_value xs + digit_value c) mod 10 = digit_value c"
      using digit_value_less [OF c] by simp_all
    with big ih c show ?thesis
      by (subst string_of_nat.simps)
        (simp add: decimal_value_snoc digit_char_digit_value)
  qed
qed

lemma parse_decimal_unique:
  assumes "parse_decimal s = Some i"
  shows "s = ToString i"
proof (cases s)
  case Nil
  with assms show ?thesis by (simp add: parse_decimal_def)
next
  case (Cons c ds)
  show ?thesis
  proof (cases "c = CHR ''-''")
    case True
    with assms Cons have "canonical_decimal ds" and "0 < decimal_value ds"
      and "i = - int (decimal_value ds)"
      by (auto simp: parse_decimal_def split: if_splits)
    then show ?thesis
      by (simp add: ToString_def Cons True string_of_nat_decimal_value)
  next
    case False
    with assms Cons have "canonical_decimal s" and "i = int (decimal_value s)"
      by (auto simp: parse_decimal_def split: if_splits)
    then show ?thesis
      by (simp add: ToString_def string_of_nat_decimal_value)
  qed
qed

lemma parse_decimal_iff: "(parse_decimal s = Some i) = (s = ToString i)"
  using parse_decimal_unique [of s i] parse_decimal_ToString [of i] by blast

section \<open>Lemmas on the style table\<close>

lemma is_array_index_hd: "\<not> is_digit c \<Longrightarrow> \<not> is_array_index (c # cs)"
  by (simp add: is_array_index_def canonical_decimal_def)

lemma foldl_update_fresh:
  "distinct (map fst props) \<Longrightarrow> set (map fst acc) \<inter> set (map fst props) = {} \<Longrightarrow>
   foldl (\<lambda>obj (k, v). AList.update k v obj) acc props = acc @ props"
proof (induction props arbitrary: acc)
  case Nil
  then show ?case by simp
next
  case (Cons p props)
  obtain k v where p: "p = (k, v)" by (cases p)
  from Cons.prems have fresh: "k \<notin> fst ` set acc" by (auto simp: p)
  then have upd: "AList.update k v acc = acc @ [(k, v)]"
    by (induction acc) auto
  from Cons.prems have "distinct (map fst props)"
    and "set (map fst (acc @ [(k, v)])) \<inter> set (map fst props) = {}"
    by (auto simp: p)
  then have "foldl (\<lambda>obj (k, v). AList.update k v obj) (acc @ [(k, v)]) props
      = (acc @ [(k, v)]) @ props"
    by (rule Cons.IH)
  then show ?case
    by (simp add: p upd)
qed

lemma object_literal_plain:
  assumes "distinct (map fst props)" and "list_all (\<lambda>k. \<not> is_array_index k) (map fst props)"
  shows "object_literal props = props"
proof -
  have "foldl (\<lambda>obj (k, v). AList.update k v obj) [] props = props"
    using foldl_update_fresh [of props "[]"] assms(1) by simp
  moreover from assms(2) have "filter (\<lambda>(k, v). is_array_index k) props = []"
    and "filter (\<lambda>(k, v). \<not> is_array_index k) props = props"
    by (auto simp: list_all_iff filter_empty_conv filter_id_conv)
  ultimately show ?thesis
    by (simp add: object_literal_def own_property_order_def)
qed

lemma object_literal_index_first:
  "object_literal [(''display'', a), (''7'', b)] = [(''7'', b), (''display'', a)]"
  by (simp add: object_literal_def own_property_order_def is_array_index_def
      canonical_decimal_def is_digit_def decimal_value_def digit_value_def)

lemma object_literal_overwrite:
  "object_literal [(''display'', a), (''display'', b)] = [(''display'', b)]"
  by (simp add: object_literal_def own_property_order_def is_array_index_def
      canonical_decimal_def is_digit_def)

lemma tableStyles_eq:
  "tableStyles th =
     [(''primary'', Obj (object_literal
         [(''display'', Str ''inline-block''),
          (smallerThan th ''sm'', Obj [(''minWidth'', Str ''12rem'')])])),
      (''noWrap'', Obj [(''whiteSpace'', Str ''nowrap'')]),
      (''select'', Obj (object_literal
         [(''display'', Str ''inline-block''),
          (smallerThan th ''sm'', Obj [(''minWidth'', Str ''10rem'')])])),
      (''width10em'', Obj [(''width'', Str ''10em'')]),
      (''width9em'', Obj [(''width'', Str ''9em'')]),
      (''width8em'', Obj [(''width'', Str ''8em'')]),
      (''width7em'', Obj [(''width'', Str ''7em'')]),
      (''width6em'', Obj [(''width'', Str ''6em'')]),
      (''width5em'', Obj [(''width'', Str ''5em'')]),
      (''width4em'', Obj [(''width'', Str ''4em'')]),
      (''width3em'', Obj [(''width'', Str ''3em'')]),
      (''width2em'', Obj [(''width'', Str ''2em'')]),
      (''width1em'', Obj [(''width'', Str ''1em'')])]"
  by (simp add: tableStyles_def object_literal_plain is_array_index_hd is_digit_def)

lemma tableStyles_keys:
  "map fst (tableStyles th) =
     [''primary'', ''noWrap'', ''select'', ''width10em'', ''width9em'', ''width8em'',
      ''width7em'', ''width6em'', ''width5em'', ''width4em'', ''width3em'', ''width2em'',
      ''width1em'']"
  by (simp add: tableStyles_eq)

lemma classes_primary:
  "useTableStyles th ''primary'' =
     Some (Obj (object_literal
       [(''display'', Str ''inline-block''),
        (smallerThan th ''sm'', Obj [(''minWidth'', Str ''12rem'')])]))"
  by (simp add: useTableStyles_def tableStyles_eq)



section \<open>Lemmas on the Missing cell\<close>

lemma missing_badges_eq:
  "missing_badges env e =
     map (\<lambda>(idx, item).
        Badge (if isLoading (download env) then Some ''gray'' else None)
          (FontAwesomeIcon None faSearch)
          (BuildKey env idx (code2 item))
          [(''cursor'', ''pointer'')]
          (Some (task_create (name item) SearchSubtitle (mutateAsync (download env))
             \<lparr>seriesId = sonarrSeriesId e, episodeId = sonarrEpisodeId e,
              form = \<lparr>language = code2 item, hi = Subtitle.hi item,
                      forced = Subtitle.forced item\<rparr>\<rparr>))
          [LanguageText item])
       (List.enumerate 0 (missing_subtitles e))"
  by (simp add: missing_badges_def Missing_Cell_def cell_props_def accessor_value_def)

lemma missing_badges_length: "length (missing_badges env e) = length (missing_subtitles e)"
  by (simp add: missing_badges_eq)

lemma missing_badges_nth:
  assumes "i < length (missing_subtitles e)"
  shows "missing_badges env e ! i =
     Badge (if isLoading (download env) then Some ''gray'' else None)
       (FontAwesomeIcon None faSearch)
       (BuildKey env i (code2 (missing_subtitles e ! i)))
       [(''cursor'', ''pointer'')]
       (Some (task_create (name (missing_subtitles e ! i)) SearchSubtitle
          (mutateAsync (download env))
          \<lparr>seriesId = sonarrSeriesId e, episodeId = sonarrEpisodeId e,
           form = \<lparr>language = code2 (missing_subtitles e ! i),
                   hi = Subtitle.hi (missing_subtitles e ! i),
                   forced = Subtitle.forced (missing_subtitles e ! i)\<rparr>\<rparr>))
       [LanguageText (missing_subtitles e ! i)]"
  using assms by (simp add: missing_badges_eq nth_enumerate_eq)

lemma missing_cell_eq:
  "Missing_Cell env (cell_props ''missing_subtitles'' e) = Inr (Group ''sm'' (missing_badges env e))"
  by (simp add: missing_badges_def Missing_Cell_def cell_props_def accessor_value_def Let_def)

section \<open>Lemmas on the style presets by number and on the memoised columns\<close>

lemma ToString_examples:
  "ToString 42 = ''42''" "ToString (- 7) = ''-7''" "ToString 0 = ''0''"
  "ToString 1234567 = ''1234567''"
  by (simp_all add: ToString_def string_of_nat.simps digit_char_def)

lemma tableStyles_sm_only:
  assumes "smallerThan t ''sm'' = smallerThan t' ''sm''"
  shows "tableStyles t = tableStyles t'"
  using assms by (simp only: tableStyles_def)

lemma classes_widthNem:
  assumes "1 \<le> n" and "n \<le> 10"
  shows "useTableStyles th (''width'' @ string_of_nat n @ ''em'') =
           Some (Obj [(''width'', Str (string_of_nat n @ ''em''))])"
proof -
  from assms consider "n = 1" | "n = 2" | "n = 3" | "n = 4" | "n = 5" | "n = 6" | "n = 7"
    | "n = 8" | "n = 9" | "n = 10"
    by atomize_elim arith
  then show ?thesis
    by cases
      (simp_all add: string_of_nat.simps digit_char_def useTableStyles_def tableStyles_eq)
qed



lemma accessors_exist:
  "set (map accessor (columns_factory ())) \<subseteq> set Wanted_Episode_keys"
  by (simp add: columns_factory_def Wanted_Episode_keys_def)

section \<open>The claims\<close>

text \<open>
  C1. For every episode record and every entry of its missing-subtitle list, a click on
  the badge of that entry makes exactly one call of \<open>task.create\<close>: the world grows by
  one task, of the group \<open>SearchSubtitle\<close>, whose argument is the record's
  \<open>sonarrSeriesId\<close> and \<open>sonarrEpisodeId\<close> with a form made of the entry's two-letter
  code, hearing-impaired flag and forced flag.
\<close>

theorem badge_click_enqueues_search_task:
  assumes "i < length (missing_subtitles e)"
  shows "click (missing_badges env e ! i) w =
     w @ [TaskCreate (name (missing_subtitles e ! i)) SearchSubtitle (mutateAsync (download env))
            \<lparr>seriesId = sonarrSeriesId e, episodeId = sonarrEpisodeId e,
             form = \<lparr>language = code2 (missing_subtitles e ! i),
                     hi = Subtitle.hi (missing_subtitles e ! i),
                     forced = Subtitle.forced (missing_subtitles e ! i)\<rparr>\<rparr>]"
  by (simp add: missing_badges_nth [OF assms] click_def task_create_def)

text \<open>
  The instance of the spec: language code \<open>en\<close>, neither hearing-impaired nor forced,
  on series 1, episode 42.
\<close>

theorem badge_click_enqueues_search_task_witness:
  "0 < length (missing_subtitles example_episode) \<and>
   click (missing_badges (example_env False) example_episode ! 0) [] =
     [TaskCreate ''English'' SearchSubtitle ''download.mutateAsync''
        \<lparr>seriesId = 1, episodeId = 42,
         form = \<lparr>language = ''en'', hi = False, forced = False\<rparr>\<rparr>]"
  using badge_click_enqueues_search_task [of 0 example_episode "example_env False" "[]"]
  by (simp add: example_episode_def example_env_def)

text \<open>
  C2. For every episode record whose missing-subtitle list has N entries, the rendered
  Missing cell is a group of exactly N badges; the i-th badge holds the \<open>Language.Text\<close>
  of the i-th entry and nothing else, and is labeled with that entry's display name.
  The badges correspond one to one, in order, to the entries of the list.
\<close>

theorem missing_cell_one_badge_per_entry:
  "Missing_Cell env (cell_props ''missing_subtitles'' e) = Inr (Group ''sm'' (missing_badges env e)) \<and>
   length (missing_badges env e) = length (missing_subtitles e) \<and>
   list_all is_Badge (missing_badges env e) \<and>
   map badge_children (missing_badges env e) =
     map (\<lambda>item. [LanguageText item]) (missing_subtitles e) \<and>
   (\<forall>i < length (missing_subtitles e).
      badge_children (missing_badges env e ! i) = [LanguageText (missing_subtitles e ! i)] \<and>
      map label (badge_children (missing_badges env e ! i)) =
        [Some (name (missing_subtitles e ! i))])"
proof -
  have only_badges: "list_all is_Badge (missing_badges env e)"
    by (simp add: list_all_length missing_badges_length missing_badges_nth)
  have children: "map badge_children (missing_badges env e) =
      map (\<lambda>item. [LanguageText item]) (missing_subtitles e)"
    by (rule nth_equalityI) (simp_all add: missing_badges_length missing_badges_nth)
  have each: "\<forall>i < length (missing_subtitles e).
      badge_children (missing_badges env e ! i) = [LanguageText (missing_subtitles e ! i)] \<and>
      map label (badge_children (missing_badges env e ! i)) =
        [Some (name (missing_subtitles e ! i))]"
    by (simp add: missing_badges_nth LanguageText_label_def)
  from missing_cell_eq [of env e] missing_badges_length [of env e] only_badges children each
  show ?thesis
    by blast
qed

theorem missing_cell_one_badge_per_entry_witness:
  "length (missing_badges (example_env False) example_episode) = 2 \<and>
   map label (badge_children (missing_badges (example_env False) example_episode ! 1))
     = [Some ''French'']"
proof -
  note r = missing_cell_one_badge_per_entry [of "example_env False" example_episode]
  have len: "length (missing_subtitles example_episode) = 2"
    by (simp add: example_episode_def)
  have nm: "name (missing_subtitles example_episode ! 1) = ''French''"
    by (simp add: example_episode_def)
  from r have a: "length (missing_badges (example_env False) example_episode)
      = length (missing_subtitles example_episode)"
    by blast
  from r have "\<forall>i < length (missing_subtitles example_episode).
      map label (badge_children (missing_badges (example_env False) example_episode ! i))
        = [Some (name (missing_subtitles example_episode ! i))]"
    by blast
  with len have "map label (badge_children (missing_badges (example_env False) example_episode ! 1))
        = [Some (name (missing_subtitles example_episode ! 1))]"
    by simp
  with a len nm show ?thesis by simp
qed

text \<open>
  C3. Whenever the download mutation reports \<open>isLoading\<close>, every Missing badge has the
  colour gray and still has its click handler: a click enqueues the search task, and a
  second click on the same badge enqueues the same task once more.
\<close>

theorem loading_badge_gray_but_clickable:
  assumes "isLoading (download env)" and "i < length (missing_subtitles e)"
  shows "badge_color (missing_badges env e ! i) = Some ''gray'' \<and>
         badge_onClick (missing_badges env e ! i) \<noteq> None \<and>
         click (missing_badges env e ! i) (click (missing_badges env e ! i) w) =
           w @ replicate 2 (TaskCreate (name (missing_subtitles e ! i)) SearchSubtitle
                 (mutateAsync (download env))
                 \<lparr>seriesId = sonarrSeriesId e, episodeId = sonarrEpisodeId e,
                  form = \<lparr>language = code2 (missing_subtitles e ! i),
                     hi = Subtitle.hi (missing_subtitles e ! i),
                     forced = Subtitle.forced (missing_subtitles e ! i)\<rparr>\<rparr>)"
  using assms(1)
  by (simp add: missing_badges_nth [OF assms(2)] click_def task_create_def numeral_2_eq_2)

theorem loading_badge_gray_but_clickable_witness:
  "isLoading (download (example_env True)) \<and> 1 < length (missing_subtitles example_episode) \<and>
   badge_color (missing_badges (example_env True) example_episode ! 1) = Some ''gray'' \<and>
   click (missing_badges (example_env True) example_episode ! 1)
     (click (missing_badges (example_env True) example_episode ! 1) []) =
     [TaskCreate ''French'' SearchSubtitle ''download.mutateAsync''
        \<lparr>seriesId = 1, episodeId = 42, form = \<lparr>language = ''fr'', hi = True, forced = False\<rparr>\<rparr>,
      TaskCreate ''French'' SearchSubtitle ''download.mutateAsync''
        \<lparr>seriesId = 1, episodeId = 42, form = \<lparr>language = ''fr'', hi = True, forced = False\<rparr>\<rparr>]"
  using loading_badge_gray_but_clickable [of "example_env True" 1 example_episode "[]"]
  by (simp add: example_episode_def example_env_def numeral_2_eq_2)

text \<open>
  C4. The claim that a click on a badge enqueues nothing while the download mutation is
  in flight fails: with \<open>isLoading\<close> set, a click on the first badge of the example
  record enqueues the search task for English.
\<close>

theorem loading_badge_click_enqueues_counterexample:
  "isLoading (download (example_env True)) \<and>
   click (missing_badges (example_env True) example_episode ! 0) [] =
     [TaskCreate ''English'' SearchSubtitle ''download.mutateAsync''
        \<lparr>seriesId = 1, episodeId = 42, form = \<lparr>language = ''en'', hi = False, forced = False\<rparr>\<rparr>]"
  by (simp add: missing_badges_eq click_def task_create_def example_episode_def example_env_def)

text \<open>
  C4 as amended. A Missing badge is gray exactly while the download mutation is in
  flight and is click-enabled in either state: a click enqueues one search task, the
  task of the badge's entry, and it is the same task whether or not a search is in
  flight.
\<close>

theorem badge_click_independent_of_loading:
  assumes "i < length (missing_subtitles e)"
  shows "badge_color (missing_badges env e ! i) =
           (if isLoading (download env) then Some ''gray'' else None) \<and>
     click (missing_badges env e ! i) w =
       w @ [TaskCreate (name (missing_subtitles e ! i)) SearchSubtitle
              (mutateAsync (download env))
              \<lparr>seriesId = sonarrSeriesId e, episodeId = sonarrEpisodeId e,
               form = \<lparr>language = code2 (missing_subtitles e ! i),
                       hi = Subtitle.hi (missing_subtitles e ! i),
                       forced = Subtitle.forced (missing_subtitles e ! i)\<rparr>\<rparr>] \<and>
     click (missing_badges (env\<lparr>download := (download env)\<lparr>isLoading := True\<rparr>\<rparr>) e ! i) w =
       w @ [TaskCreate (name (missing_subtitles e ! i)) SearchSubtitle
              (mutateAsync (download env))
              \<lparr>seriesId = sonarrSeriesId e, episodeId = sonarrEpisodeId e,
               form = \<lparr>language = code2 (missing_subtitles e ! i),
                       hi = Subtitle.hi (missing_subtitles e ! i),
                       forced = Subtitle.forced (missing_subtitles e ! i)\<rparr>\<rparr>] \<and>
     click (missing_badges (env\<lparr>download := (download env)\<lparr>isLoading := False\<rparr>\<rparr>) e ! i) w =
       w @ [TaskCreate (name (missing_subtitles e ! i)) SearchSubtitle
              (mutateAsync (download env))
              \<lparr>seriesId = sonarrSeriesId e, episodeId = sonarrEpisodeId e,
               form = \<lparr>language = code2 (missing_subtitles e ! i),
                       hi = Subtitle.hi (missing_subtitles e ! i),
                       forced = Subtitle.forced (missing_subtitles e ! i)\<rparr>\<rparr>]"
  by (simp add: missing_badges_nth [OF assms] click_def task_create_def)

theorem badge_click_independent_of_loading_witness:
  "0 < length (missing_subtitles example_episode) \<and>
   badge_color (missing_badges (example_env True) example_episode ! 0) = Some ''gray'' \<and>
   click (missing_badges (example_env True) example_episode ! 0) [] =
     [TaskCreate ''English'' SearchSubtitle ''download.mutateAsync''
        \<lparr>seriesId = 1, episodeId = 42,
         form = \<lparr>language = ''en'', hi = False, forced = False\<rparr>\<rparr>]"
proof -
  have h: "0 < length (missing_subtitles example_episode)"
    by (simp add: example_episode_def)
  have l: "isLoading (download (example_env True))"
    and f: "mutateAsync (download (example_env True)) = ''download.mutateAsync''"
    by (simp_all add: example_env_def)
  have item: "missing_subtitles example_episode ! 0 =
      \<lparr>code2 = ''en'', name = ''English'', hi = False, forced = False\<rparr>"
    and ids: "sonarrSeriesId example_episode = 1" "sonarrEpisodeId example_episode = 42"
    by (simp_all add: example_episode_def)
  note r = badge_click_independent_of_loading [OF h, of "example_env True" "[]"]
  from r l have "badge_color (missing_badges (example_env True) example_episode ! 0) = Some ''gray''"
    by simp
  moreover from r have "click (missing_badges (example_env True) example_episode ! 0) [] =
     [TaskCreate ''English'' SearchSubtitle ''download.mutateAsync''
        \<lparr>seriesId = 1, episodeId = 42,
         form = \<lparr>language = ''en'', hi = False, forced = False\<rparr>\<rparr>]"
    by (simp add: f item ids)
  ultimately show ?thesis using h by blast
qed

text \<open>
  C5. Every invocation of the \<open>searchAll\<close> action of the rendered page calls the
  \<open>mutateAsync\<close> of the series-action mutation exactly once, with the argument
  \<open>{action: "search-wanted"}\<close>, and does nothing else.
\<close>

theorem searchAll_invokes_search_wanted:
  "view_searchAll (fst (WantedSeriesView hooks cell)) w =
     w @ [MutateAsync (mutateAsync (useSeriesAction hooks)) \<lparr>action = ''search-wanted''\<rparr>]"
  by (simp add: WantedSeriesView_def invoke_def split: prod.split)

text \<open>
  C6. For every episode record whose \<open>sonarrSeriesId\<close> is an identifier (a safe
  integer), the cell of the Name column, the first column, with the accessor
  \<open>seriesTitle\<close>, is an anchor rendered through the router's \<open>Link\<close>. Its target is
  \<open>/series/\<close> followed by the decimal text of the identifier, which is the one text
  that reads back as the identifier; its text is the record's \<open>seriesTitle\<close>; its class
  is the \<open>primary\<close> preset of the style table.
\<close>

theorem name_cell_links_to_series:
  assumes "isSafeInteger (sonarrSeriesId e)"
  shows "Cell (columns_factory () ! 0) = Some Name_Cell \<and>
   Header (columns_factory () ! 0) = Some ''Name'' \<and>
   accessor (columns_factory () ! 0) = ''seriesTitle'' \<and>
   Name_Cell env (cell_props ''seriesTitle'' e) =
     Inr (Anchor (useTableStyles (theme env) ''primary'') Link
            (''/series/'' @ ToString (sonarrSeriesId e)) [Value (VString (seriesTitle e))]) \<and>
   (\<forall>s. (parse_decimal s = Some (sonarrSeriesId e)) = (s = ToString (sonarrSeriesId e))) \<and>
   useTableStyles (theme env) ''primary'' = Some (Obj (object_literal
       [(''display'', Str ''inline-block''),
        (smallerThan (theme env) ''sm'', Obj [(''minWidth'', Str ''12rem'')])]))"
proof -
  have col: "Cell (columns_factory () ! 0) = Some Name_Cell"
    "Header (columns_factory () ! 0) = Some ''Name''"
    "accessor (columns_factory () ! 0) = ''seriesTitle''"
    by (simp_all add: columns_factory_def)
  have cell: "Name_Cell env (cell_props ''seriesTitle'' e) =
     Inr (Anchor (useTableStyles (theme env) ''primary'') Link
            (''/series/'' @ ToString (sonarrSeriesId e)) [Value (VString (seriesTitle e))])"
    by (simp add: Name_Cell_def cell_props_def accessor_value_def)
  have dec: "\<forall>s. (parse_decimal s = Some (sonarrSeriesId e)) = (s = ToString (sonarrSeriesId e))"
    by (simp add: parse_decimal_iff)
  from col cell dec classes_primary [of "theme env"] show ?thesis
    by blast
qed

theorem name_cell_links_to_series_witness:
  "isSafeInteger (sonarrSeriesId example_episode) \<and>
   Name_Cell (example_env False) (cell_props ''seriesTitle'' example_episode) =
     Inr (Anchor
       (Some (Obj [(''display'', Str ''inline-block''),
                   (''@media (max-width: 767px)'', Obj [(''minWidth'', Str ''12rem'')])]))
       Link ''/series/1'' [Value (VString ''Series'')])"
proof -
  have h: "isSafeInteger (sonarrSeriesId example_episode)"
    by (simp add: isSafeInteger_def example_episode_def)
  note r = name_cell_links_to_series [OF h, of "example_env False"]
  have target: "''/series/'' @ ToString (sonarrSeriesId example_episode) = ''/series/1''"
    by (simp add: example_episode_def ToString_def string_of_nat.simps digit_char_def)
  have title: "seriesTitle example_episode = ''Series''"
    by (simp add: example_episode_def)
  have query: "smallerThan (theme (example_env False)) ''sm'' = ''@media (max-width: 767px)''"
    by (simp add: example_env_def example_theme_def)
  have rules: "object_literal
       [(''display'', Str ''inline-block''),
        (''@media (max-width: 767px)'', Obj [(''minWidth'', Str ''12rem'')])]
     = [(''display'', Str ''inline-block''),
        (''@media (max-width: 767px)'', Obj [(''minWidth'', Str ''12rem'')])]"
    by (simp add: object_literal_plain is_array_index_hd is_digit_def)
  from r have "Name_Cell (example_env False) (cell_props ''seriesTitle'' example_episode) =
     Inr (Anchor (useTableStyles (theme (example_env False)) ''primary'') Link
            (''/series/'' @ ToString (sonarrSeriesId example_episode))
            [Value (VString (seriesTitle example_episode))])"
    and "useTableStyles (theme (example_env False)) ''primary'' = Some (Obj (object_literal
       [(''display'', Str ''inline-block''),
        (smallerThan (theme (example_env False)) ''sm'', Obj [(''minWidth'', Str ''12rem'')])]))"
    by blast+
  then have "Name_Cell (example_env False) (cell_props ''seriesTitle'' example_episode) =
     Inr (Anchor
       (Some (Obj [(''display'', Str ''inline-block''),
                   (''@media (max-width: 767px)'', Obj [(''minWidth'', Str ''12rem'')])]))
       Link ''/series/1'' [Value (VString ''Series'')])"
    by (simp only: target title query rules)
  with h show ?thesis by blast
qed


text \<open>
  C8. The style table is a function of the theme alone, and of the theme only through
  the media query it gives for \<open>sm\<close>: two themes that agree there give the same rule
  set for every style name, so two lookups under the same theme agree. Its keys are
  \<open>primary\<close>, \<open>noWrap\<close>, \<open>select\<close> and \<open>width10em\<close> down to \<open>width1em\<close>, whatever the
  theme, and for every N from 1 to 10 the preset \<open>widthNem\<close> is the single rule
  \<open>width: Nem\<close>.
\<close>

theorem table_styles_deterministic:
  "(smallerThan t ''sm'' = smallerThan t' ''sm'' \<longrightarrow>
      (\<forall>k. useTableStyles t k = useTableStyles t' k)) \<and>
   map fst (tableStyles t) =
     [''primary'', ''noWrap'', ''select'', ''width10em'', ''width9em'', ''width8em'',
      ''width7em'', ''width6em'', ''width5em'', ''width4em'', ''width3em'', ''width2em'',
      ''width1em''] \<and>
   (\<forall>n \<in> {1..10}. useTableStyles t (''width'' @ string_of_nat n @ ''em'') =
           Some (Obj [(''width'', Str (string_of_nat n @ ''em''))]))"
proof (intro conjI impI allI ballI)
  fix k assume "smallerThan t ''sm'' = smallerThan t' ''sm''"
  then show "useTableStyles t k = useTableStyles t' k"
    by (simp add: useTableStyles_def tableStyles_sm_only [of t t'])
next
  show "map fst (tableStyles t) =
     [''primary'', ''noWrap'', ''select'', ''width10em'', ''width9em'', ''width8em'',
      ''width7em'', ''width6em'', ''width5em'', ''width4em'', ''width3em'', ''width2em'',
      ''width1em'']"
    by (rule tableStyles_keys)
next
  fix n :: nat assume "n \<in> {1..10}"
  then have "1 \<le> n" and "n \<le> 10"
    by simp_all
  then show "useTableStyles t (''width'' @ string_of_nat n @ ''em'') =
           Some (Obj [(''width'', Str (string_of_nat n @ ''em''))])"
    by (rule classes_widthNem)
qed

theorem table_styles_deterministic_witness:
  "smallerThan (example_theme ''767'') ''sm'' = smallerThan example_theme_alt ''sm'' \<and>
   smallerThan (example_theme ''767'') ''md'' \<noteq> smallerThan example_theme_alt ''md'' \<and>
   useTableStyles (example_theme ''767'') ''primary'' = useTableStyles example_theme_alt ''primary'' \<and>
   (7::nat) \<in> {1..10} \<and>
   useTableStyles (example_theme ''767'') ''width7em'' = Some (Obj [(''width'', Str ''7em'')])"
proof -
  note r = table_styles_deterministic [of "example_theme ''767''" example_theme_alt]
  have h: "smallerThan (example_theme ''767'') ''sm'' = smallerThan example_theme_alt ''sm''"
    by (simp add: example_theme_def example_theme_alt_def)
  have d: "smallerThan (example_theme ''767'') ''md'' \<noteq> smallerThan example_theme_alt ''md''"
    by (simp add: example_theme_def example_theme_alt_def)
  have m: "(7::nat) \<in> {1..10}" by simp
  have s: "string_of_nat 7 @ ''em'' = ''7em''"
    by (simp add: string_of_nat.simps digit_char_def)
  from r h have a: "useTableStyles (example_theme ''767'') ''primary''
      = useTableStyles example_theme_alt ''primary''"
    by blast
  from r m have "useTableStyles (example_theme ''767'') (''width'' @ string_of_nat 7 @ ''em'') =
           Some (Obj [(''width'', Str (string_of_nat 7 @ ''em''))])"
    by blast
  then have b: "useTableStyles (example_theme ''767'') ''width7em''
      = Some (Obj [(''width'', Str ''7em'')])"
    by (simp add: s)
  from h d a m b show ?thesis by blast
qed

text \<open>
  C9. For every badge of every record, the task a click registers is named with the
  display name of the badge's language entry, whatever the series title and the episode
  title of the record are, and its group is \<open>SearchSubtitle\<close>.
\<close>

theorem task_named_after_language:
  assumes "i < length (missing_subtitles e)"
  shows "map task_name
           (click (missing_badges env (e\<lparr>seriesTitle := s, episodeTitle := t\<rparr>) ! i) [])
           = [name (missing_subtitles e ! i)] \<and>
         map task_group
           (click (missing_badges env (e\<lparr>seriesTitle := s, episodeTitle := t\<rparr>) ! i) [])
           = [SearchSubtitle]"
  using assms by (simp add: missing_badges_nth click_def task_create_def)

theorem task_named_after_language_witness:
  "1 < length (missing_subtitles example_episode) \<and>
   map task_name
     (click (missing_badges (example_env False)
        (example_episode\<lparr>seriesTitle := ''Another series'', episodeTitle := ''Pilot''\<rparr>) ! 1) [])
     = [''French'']"
proof -
  have h: "1 < length (missing_subtitles example_episode)"
    by (simp add: example_episode_def)
  have nm: "name (missing_subtitles example_episode ! 1) = ''French''"
    by (simp add: example_episode_def)
  from task_named_after_language
    [OF h, where env = "example_env False" and s = "''Another series''" and t = "''Pilot''"]
  have "map task_name
     (click (missing_badges (example_env False)
        (example_episode\<lparr>seriesTitle := ''Another series'', episodeTitle := ''Pilot''\<rparr>) ! 1) [])
     = [name (missing_subtitles example_episode ! 1)]"
    by blast
  with h nm show ?thesis by simp
qed

text \<open>
  C10. For every episode record, with or without a scene name, the cell of the Release
  column, the fifth column, is an element and never an error: the file-lines icon of
  size 2x inside a popover whose text is the record's \<open>sceneName\<close>, absent when the
  record has none.
\<close>

theorem release_cell_total:
  "Cell (columns_factory () ! 4) = Some Release_Cell \<and>
   Release_Cell env props =
     Inr (TextPopover (sceneName (original (row props)))
            [FontAwesomeIcon (Some ''2x'') faFileLines]) \<and>
   Release_Cell env (cell_props ''sceneName'' (e\<lparr>sceneName := None\<rparr>)) =
     Inr (TextPopover None [FontAwesomeIcon (Some ''2x'') faFileLines])"
  by (simp add: Release_Cell_def cell_props_def columns_factory_def)

end
